theory Spec2Isabelle
  imports Main "HOL-Library.AList"
begin

section \<open>Data model\<close>

text \<open>
  Numbers. The source computes with Python numbers (dimensions, volumes, coordinates);
  they are modelled as unbounded integers \<open>int\<close>, on which the arithmetic of the
  source is exact.

  Dictionaries. A Python \<open>dict\<close> keeps insertion order and has distinct keys. It is an
  association list: \<open>d.get(k)\<close> is \<open>map_of d k\<close>, \<open>d[k] = v\<close> is
  \<open>AList.update k v d\<close> (replace in place, or append a new key at the end),
  \<open>len(d)\<close> is \<open>length d\<close> and \<open>d.keys()\<close> is \<open>map fst d\<close>.
\<close>

type_synonym ('k, 'v) dict = "('k \<times> 'v) list"

text \<open>
  Modelled from the spec: the classes of the inventory collaborator (Item, its metadata
  and dimensions, VirtualStorageUnit, its dimensions and position, Shelf) are declared
  outside \<open>relocation.py\<close> and \<open>product_archive.py\<close>. The records below hold the
  attributes those two modules read or write. An attribute the source tests with
  \<open>hasattr\<close> or against \<open>None\<close> is an \<open>option\<close>; every other attribute is
  taken to be present, the \<open>rack_id\<close> of a shelf included.
\<close>

record item_dimensions =
  dim_width :: int
  dim_height :: int
  dim_depth :: int
  dim_weight :: "int option"

record item_metadata =
  product_id :: int
  barcode :: string
  batch :: string
  expiration :: string
  dimensions :: item_dimensions

record item =
  item_ident :: int
  vsu_id :: "int option"
  stock_index :: int
  metadata :: item_metadata

record vsu_dimensions =
  vd_width :: int
  vd_height :: int
  vd_depth :: int
  vd_volume :: "int option"

record position =
  pos_x :: int
  pos_y :: int
  pos_z :: int

text \<open>
  \<open>vsu_items\<close> is the attribute \<open>items\<close> of a VSU: the source treats \<open>None\<close> and the
  empty list alike when it tests for emptiness, so the attribute is an optional list.
\<close>

record virtual_storage_unit =
  vsu_ident :: int
  vsu_code :: string
  vsu_dims :: vsu_dimensions
  vsu_position :: position
  shelf_id :: int
  vsu_items :: "int list option"
  occupied :: bool

record shelf =
  shelf_name :: string
  rack_id :: int
  virtual_units :: "int list"

section \<open>Fit predicate and fit score\<close>

text \<open>\<open>_item_fits_vsu\<close>: the item must fit in all three dimensions, axis by axis.\<close>

definition item_fits_vsu :: "item \<Rightarrow> virtual_storage_unit \<Rightarrow> bool" where
  "item_fits_vsu it vsu =
     (let item_width = dim_width (dimensions (metadata it));
          item_height = dim_height (dimensions (metadata it));
          item_depth = dim_depth (dimensions (metadata it));
          vsu_width = vd_width (vsu_dims vsu);
          vsu_height = vd_height (vsu_dims vsu);
          vsu_depth = vd_depth (vsu_dims vsu)
      in item_width \<le> vsu_width \<and> item_height \<le> vsu_height \<and> item_depth \<le> vsu_depth)"

text \<open>
  \<open>_calculate_vsu_fit_score\<close>: the VSU's volume is its \<open>volume\<close> attribute when it has
  one, and the product of its dimensions otherwise; the location bonus follows the
  \<open>if\<close>/\<open>elif\<close> of the source.
\<close>

definition calculate_vsu_fit_score ::
  "item \<Rightarrow> virtual_storage_unit \<Rightarrow> bool \<Rightarrow> bool \<Rightarrow> int" where
  "calculate_vsu_fit_score it vsu is_same_shelf is_same_rack =
     (let item_volume = dim_width (dimensions (metadata it)) *
                        dim_height (dimensions (metadata it)) *
                        dim_depth (dimensions (metadata it));
          vsu_volume = (case vd_volume (vsu_dims vsu) of
                          Some v \<Rightarrow> v
                        | None \<Rightarrow> vd_width (vsu_dims vsu) * vd_height (vsu_dims vsu) *
                                    vd_depth (vsu_dims vsu));
          wasted_space = vsu_volume - item_volume;
          location_bonus = (if is_same_shelf then - 1000
                            else if is_same_rack then - 500 else 0)
      in wasted_space + location_bonus)"

text \<open>The volume of an item and of a slot, as the claims name them.\<close>

definition item_volume_of :: "item \<Rightarrow> int" where
  "item_volume_of it =
     dim_width (dimensions (metadata it)) * dim_height (dimensions (metadata it)) *
     dim_depth (dimensions (metadata it))"

definition vsu_volume_of :: "virtual_storage_unit \<Rightarrow> int" where
  "vsu_volume_of vsu =
     (case vd_volume (vsu_dims vsu) of
        Some v \<Rightarrow> v
      | None \<Rightarrow> vd_width (vsu_dims vsu) * vd_height (vsu_dims vsu) * vd_depth (vsu_dims vsu))"

section \<open>Candidate search\<close>

text \<open>
  Python truthiness of an optional list: \<open>None\<close> and \<open>[]\<close> are false.
\<close>

definition truthy :: "'a list option \<Rightarrow> bool" where
  "truthy xs = (case xs of None \<Rightarrow> False | Some ys \<Rightarrow> ys \<noteq> [])"

text \<open>
  A candidate is the tuple \<open>(score, vsu_id, vsu.code, vsu)\<close> of the source; the fifth
  component, the location description, is only printed and is left out.
\<close>

type_synonym candidate = "int \<times> int \<times> string \<times> virtual_storage_unit"

text \<open>
  The inner loop \<open>for vsu_id in shelf.virtual_units\<close>, with its three \<open>continue\<close>s:
  an id that \<open>virtual_units.get\<close> does not find, a VSU whose list is not empty, a VSU
  the item does not fit.
\<close>

fun scan_shelf ::
  "item \<Rightarrow> bool \<Rightarrow> bool \<Rightarrow> (int, virtual_storage_unit) dict \<Rightarrow> int list \<Rightarrow> candidate list"
where
  "scan_shelf it is_same_shelf is_same_rack vus [] = []"
| "scan_shelf it is_same_shelf is_same_rack vus (vid # rest) =
     (case map_of vus vid of
        None \<Rightarrow> scan_shelf it is_same_shelf is_same_rack vus rest
      | Some vsu \<Rightarrow>
          if truthy (vsu_items vsu) \<and> length (the (vsu_items vsu)) > 0
          then scan_shelf it is_same_shelf is_same_rack vus rest
          else if \<not> item_fits_vsu it vsu
          then scan_shelf it is_same_shelf is_same_rack vus rest
          else (calculate_vsu_fit_score it vsu is_same_shelf is_same_rack,
                vid, vsu_code vsu, vsu)
               # scan_shelf it is_same_shelf is_same_rack vus rest)"

text \<open>The outer loop \<open>for sid, shelf in shelves.items()\<close>, in the dictionary's order.\<close>

fun scan_shelves ::
  "item \<Rightarrow> int \<Rightarrow> int option \<Rightarrow> (int, virtual_storage_unit) dict \<Rightarrow> (int, shelf) dict
   \<Rightarrow> candidate list"
where
  "scan_shelves it sh_id current_rack_id vus [] = []"
| "scan_shelves it sh_id current_rack_id vus ((sid, sh) # rest) =
     scan_shelf it (sid = sh_id) (Some (rack_id sh) = current_rack_id) vus (virtual_units sh)
     @ scan_shelves it sh_id current_rack_id vus rest"

text \<open>
  \<open>find_empty_vsu_for_relocate\<close>. \<open>candidates.sort(key=lambda x: x[0])\<close> is a stable
  sort on the score, \<open>sort_key fst\<close>; the result is \<open>candidates[0]\<close> without its score.
  The parameter \<open>items\<close> is not used by the source either. The function reads the
  inventory and returns a value; it has no assignment to any of its arguments.
\<close>

definition find_empty_vsu_for_relocate ::
  "item \<Rightarrow> int \<Rightarrow> (int, item) dict \<Rightarrow> (int, virtual_storage_unit) dict \<Rightarrow> (int, shelf) dict
   \<Rightarrow> (int \<times> string \<times> virtual_storage_unit) option"
where
  "find_empty_vsu_for_relocate item_to_relocate sh_id its vus shs =
     (let current_shelf = map_of shs sh_id;
          current_rack_id = (case current_shelf of Some sh \<Rightarrow> Some (rack_id sh) | None \<Rightarrow> None);
          candidates = scan_shelves item_to_relocate sh_id current_rack_id vus shs
      in if candidates = [] then None
         else (case sort_key fst candidates of
                 [] \<Rightarrow> None
               | best # _ \<Rightarrow> Some (snd best)))"

section \<open>The two audit stores\<close>

text \<open>
  A \<open>datetime\<close> is represented by its ISO-8601 text, so that \<open>isoformat()\<close> is the
  identity. The reading of the clock is a parameter \<open>now\<close> of every function that calls
  \<open>datetime.now()\<close>; the readings taken during one call are identified.
\<close>

type_synonym datetime = string

datatype json_value = JNull | JInt int | JStr string

type_synonym metadata_dict = "(string, json_value) dict"

record relocation_record =
  rr_item_id :: int
  rr_product_id :: int
  rr_barcode :: string
  original_vsu_id :: int
  original_vsu_code :: string
  new_vsu_id :: int
  new_vsu_code :: string
  original_coordinates :: position
  new_coordinates :: position
  relocated_at :: datetime
  reason :: string

record relocation_history =
  relocations :: "(int, relocation_record) dict"
  rh_metadata :: metadata_dict

record archived_item =
  ai_item_id :: int
  ai_product_id :: int
  ai_barcode :: string
  ai_batch :: string
  ai_expiration :: string
  ai_dimensions :: "int \<times> int \<times> int"
  ai_weight :: int
  ai_vsu_id :: int
  ai_vsu_code :: string
  ai_shelf_id :: int
  ai_shelf_name :: string
  ai_coordinates :: position
  ai_stock_index :: int
  dispensed_at :: datetime
  task_id :: string

record product_archive =
  archive_items :: "(int, archived_item) dict"
  pa_metadata :: metadata_dict

text \<open>
  The exceptions of the two modules. \<open>HTTPException\<close> carries its status code. The four
  last ones are what the body of the \<open>try\<close> in a load function can raise; the
  \<open>except Exception\<close> of the load function catches every one of them.
\<close>

datatype error =
    HTTPException int
  | KeyError
  | TypeError
  | OSError
  | JSONDecodeError
  | AttributeError
  | ValueError
  | ValidationError

text \<open>
  The backing file. \<open>json.load\<close> and the validation of pydantic are library code; the
  file is modelled by what they make of it. \<open>NotJSON\<close> is a file that cannot be read as
  a JSON object. In a \<open>JSONDocument\<close> the first field is the value under the key
  \<open>"relocations"\<close> (or \<open>"items"\<close>) and the second one the value under \<open>"metadata"\<close>:
  \<open>Absent\<close> when the key is missing, \<open>Invalid\<close> when the value is not an object.
  An entry of the records' object is a pair: its key, \<open>Some n\<close> when \<open>int(key)\<close>
  returns \<open>n\<close> and \<open>None\<close> when it raises; and its value, \<open>Some r\<close> when the record
  is built and validated as \<open>r\<close>, \<open>None\<close> when that raises.
\<close>

datatype 'a json_field = Absent | Invalid | Present 'a

datatype 'r stored_file =
    NotJSON
  | JSONDocument "(int option \<times> 'r option) list json_field" "metadata_dict json_field"

text \<open>
  The global state of \<open>relocation.py\<close> with its file (\<open>None\<close>: the file does not
  exist) and whether a write to the file succeeds; and the same for
  \<open>product_archive.py\<close>.
\<close>

record history_world =
  relocation_history_state :: "relocation_history option"
  next_relocation_id :: int
  history_file :: "relocation_record stored_file option"
  history_writable :: bool

record archive_world =
  product_archive_state :: "product_archive option"
  archive_file :: "archived_item stored_file option"
  archive_writable :: bool

text \<open>The module-level initial values: the state of a process that has just started.\<close>

definition fresh_process ::
  "relocation_record stored_file option \<Rightarrow> bool \<Rightarrow> history_world" where
  "fresh_process f wr =
     \<lparr>relocation_history_state = None, next_relocation_id = 1,
      history_file = f, history_writable = wr\<rparr>"

definition fresh_archive_process ::
  "archived_item stored_file option \<Rightarrow> bool \<Rightarrow> archive_world" where
  "fresh_archive_process f wr =
     \<lparr>product_archive_state = None, archive_file = f, archive_writable = wr\<rparr>"

text \<open>\<open>RelocationHistory()\<close> and \<open>ProductArchive()\<close>: the defaults of the two classes.\<close>

definition RelocationHistory_default :: relocation_history where
  "RelocationHistory_default =
     \<lparr>relocations = [],
      rh_metadata = [(''total_relocations'', JInt 0), (''last_updated'', JNull),
                     (''version'', JStr ''1.0'')]\<rparr>"

definition ProductArchive_default :: product_archive where
  "ProductArchive_default =
     \<lparr>archive_items = [],
      pa_metadata = [(''total_items'', JInt 0), (''last_updated'', JNull),
                     (''version'', JStr ''1.0'')]\<rparr>"

text \<open>
  What a save writes: every record under the text of its key, and the metadata. Reading
  the text of an integer key back with \<open>int\<close> gives the key, and a record written by
  \<open>dict()\<close> validates on reading.
\<close>

definition serialise :: "(int, 'r) dict \<Rightarrow> metadata_dict \<Rightarrow> 'r stored_file" where
  "serialise recs md = JSONDocument (Present (map (\<lambda>(k, r). (Some k, Some r)) recs)) (Present md)"

text \<open>
  \<open>save_relocation_history\<close>. The argument \<open>history\<close> is, at each of its call sites,
  the object the global \<open>relocation_history_state\<close> is bound to, so the update of its
  metadata is an update of the global. The metadata is updated before the write is
  tried; a write that fails raises (\<open>OSError\<close>) and leaves the file as it was.
\<close>

definition save_relocation_history ::
  "datetime \<Rightarrow> relocation_history \<Rightarrow> history_world \<Rightarrow> (error + unit) \<times> history_world" where
  "save_relocation_history now history w =
     (let md1 = AList.update ''total_relocations'' (JInt (int (length (relocations history))))
                  (rh_metadata history);
          md2 = AList.update ''last_updated'' (JStr now) md1;
          history' = history\<lparr>rh_metadata := md2\<rparr>;
          w1 = w\<lparr>relocation_history_state := Some history'\<rparr>
      in if history_writable w
         then (Inr (), w1\<lparr>history_file := Some (serialise (relocations history') md2)\<rparr>)
         else (Inl OSError, w1))"

definition save_product_archive ::
  "datetime \<Rightarrow> product_archive \<Rightarrow> archive_world \<Rightarrow> (error + unit) \<times> archive_world" where
  "save_product_archive now archive w =
     (let md1 = AList.update ''total_items'' (JInt (int (length (archive_items archive))))
                  (pa_metadata archive);
          md2 = AList.update ''last_updated'' (JStr now) md1;
          archive' = archive\<lparr>pa_metadata := md2\<rparr>;
          w1 = w\<lparr>product_archive_state := Some archive'\<rparr>
      in if archive_writable w
         then (Inr (), w1\<lparr>archive_file := Some (serialise (archive_items archive') md2)\<rparr>)
         else (Inl OSError, w1))"

text \<open>
  The loop of a load function over the entries of the file: \<open>int(key)\<close>, the
  conversion and validation of the record, and the assignment \<open>d[key] = record\<close>. It
  stops at the first entry that raises.
\<close>

fun convert_entries :: "(int option \<times> 'r option) list \<Rightarrow> (int, 'r) dict \<Rightarrow> error + (int, 'r) dict"
where
  "convert_entries [] d = Inr d"
| "convert_entries ((k, v) # es) d =
     (case k of
        None \<Rightarrow> Inl ValueError
      | Some n \<Rightarrow>
          (case v of
             None \<Rightarrow> Inl ValidationError
           | Some r \<Rightarrow> convert_entries es (AList.update n r d)))"

text \<open>\<open>data.get(key, {}).items()\<close>: the entries under the key, none when it is missing.\<close>

definition entries_of :: "'a list json_field \<Rightarrow> error + 'a list" where
  "entries_of fld = (case fld of Absent \<Rightarrow> Inr [] | Invalid \<Rightarrow> Inl AttributeError | Present es \<Rightarrow> Inr es)"

text \<open>
  The body of the \<open>try\<close> of \<open>load_relocation_history\<close>. The assignment to the global
  \<open>next_relocation_id\<close> is made, when the dictionary is not empty, before the history
  object is built; so the function returns the counter together with its result.
\<close>

definition try_load_relocation_history ::
  "relocation_record stored_file \<Rightarrow> int \<Rightarrow> (error + relocation_history) \<times> int" where
  "try_load_relocation_history content next_id =
     (case content of
        NotJSON \<Rightarrow> (Inl JSONDecodeError, next_id)
      | JSONDocument recs md \<Rightarrow>
          (case entries_of recs of
             Inl e \<Rightarrow> (Inl e, next_id)
           | Inr es \<Rightarrow>
               (case convert_entries es [] of
                  Inl e \<Rightarrow> (Inl e, next_id)
                | Inr relocations_dict \<Rightarrow>
                    (let next_id' = (if relocations_dict \<noteq> []
                                     then Max (set (map fst relocations_dict)) + 1
                                     else next_id)
                     in case md of
                          Invalid \<Rightarrow> (Inl ValidationError, next_id')
                        | Absent \<Rightarrow>
                            (Inr \<lparr>relocations = relocations_dict,
                                  rh_metadata =
                                    [(''total_relocations'', JInt (int (length relocations_dict))),
                                     (''last_updated'', JNull), (''version'', JStr ''1.0'')]\<rparr>,
                             next_id')
                        | Present m \<Rightarrow>
                            (Inr \<lparr>relocations = relocations_dict, rh_metadata = m\<rparr>, next_id')))))"

definition try_load_product_archive :: "archived_item stored_file \<Rightarrow> error + product_archive" where
  "try_load_product_archive content =
     (case content of
        NotJSON \<Rightarrow> Inl JSONDecodeError
      | JSONDocument recs md \<Rightarrow>
          (case entries_of recs of
             Inl e \<Rightarrow> Inl e
           | Inr es \<Rightarrow>
               (case convert_entries es [] of
                  Inl e \<Rightarrow> Inl e
                | Inr items_dict \<Rightarrow>
                    (case md of
                       Invalid \<Rightarrow> Inl ValidationError
                     | Absent \<Rightarrow>
                         Inr \<lparr>archive_items = items_dict,
                              pa_metadata =
                                [(''total_items'', JInt (int (length items_dict))),
                                 (''last_updated'', JNull), (''version'', JStr ''1.0'')]\<rparr>
                     | Present m \<Rightarrow> Inr \<lparr>archive_items = items_dict, pa_metadata = m\<rparr>))))"

text \<open>
  The two places of a load function that bind the global to a new empty aggregate, save
  it and return it: when the file does not exist, and in the \<open>except\<close> branch. An
  exception of the save is not caught there.
\<close>

definition init_relocation_history ::
  "datetime \<Rightarrow> history_world \<Rightarrow> (error + relocation_history) \<times> history_world" where
  "init_relocation_history now w =
     (let w1 = w\<lparr>relocation_history_state := Some RelocationHistory_default\<rparr>
      in case save_relocation_history now RelocationHistory_default w1 of
           (Inl e, w2) \<Rightarrow> (Inl e, w2)
         | (Inr _, w2) \<Rightarrow>
             (case relocation_history_state w2 of
                Some h \<Rightarrow> (Inr h, w2)
              | None \<Rightarrow> (Inr RelocationHistory_default, w2)))"

definition load_relocation_history ::
  "datetime \<Rightarrow> history_world \<Rightarrow> (error + relocation_history) \<times> history_world" where
  "load_relocation_history now w =
     (case history_file w of
        None \<Rightarrow> init_relocation_history now w
      | Some content \<Rightarrow>
          (case try_load_relocation_history content (next_relocation_id w) of
             (Inr h, next_id') \<Rightarrow>
               (Inr h, w\<lparr>next_relocation_id := next_id', relocation_history_state := Some h\<rparr>)
           | (Inl e, next_id') \<Rightarrow>
               init_relocation_history now (w\<lparr>next_relocation_id := next_id'\<rparr>)))"

definition init_product_archive ::
  "datetime \<Rightarrow> archive_world \<Rightarrow> (error + product_archive) \<times> archive_world" where
  "init_product_archive now w =
     (let w1 = w\<lparr>product_archive_state := Some ProductArchive_default\<rparr>
      in case save_product_archive now ProductArchive_default w1 of
           (Inl e, w2) \<Rightarrow> (Inl e, w2)
         | (Inr _, w2) \<Rightarrow>
             (case product_archive_state w2 of
                Some a \<Rightarrow> (Inr a, w2)
              | None \<Rightarrow> (Inr ProductArchive_default, w2)))"

definition load_product_archive ::
  "datetime \<Rightarrow> archive_world \<Rightarrow> (error + product_archive) \<times> archive_world" where
  "load_product_archive now w =
     (case archive_file w of
        None \<Rightarrow> init_product_archive now w
      | Some content \<Rightarrow>
          (case try_load_product_archive content of
             Inr a \<Rightarrow> (Inr a, w\<lparr>product_archive_state := Some a\<rparr>)
           | Inl e \<Rightarrow> init_product_archive now w))"

text \<open>
  A file fails to parse or validate when it is not a JSON object, when the value under
  the records' key or under \<open>"metadata"\<close> is not an object, or when one of its entries
  has a key that is no integer or a record that does not validate.
\<close>

definition fails_to_parse :: "'r stored_file \<Rightarrow> bool" where
  "fails_to_parse content =
     (case content of
        NotJSON \<Rightarrow> True
      | JSONDocument recs md \<Rightarrow>
          (case recs of
             Absent \<Rightarrow> False
           | Invalid \<Rightarrow> True
           | Present es \<Rightarrow> list_ex (\<lambda>(k, v). k = None \<or> v = None) es)
          \<or> md = Invalid)"

text \<open>
  The empty aggregates once a save has updated their metadata at the time \<open>now\<close>.
\<close>

definition saved_empty_history :: "datetime \<Rightarrow> relocation_history" where
  "saved_empty_history now =
     \<lparr>relocations = [],
      rh_metadata = [(''total_relocations'', JInt 0), (''last_updated'', JStr now),
                     (''version'', JStr ''1.0'')]\<rparr>"

definition saved_empty_archive :: "datetime \<Rightarrow> product_archive" where
  "saved_empty_archive now =
     \<lparr>archive_items = [],
      pa_metadata = [(''total_items'', JInt 0), (''last_updated'', JStr now),
                     (''version'', JStr ''1.0'')]\<rparr>"


section \<open>Relocation\<close>

text \<open>
  The three dictionaries \<open>relocate_item\<close> is given. They hold objects, which the
  function changes in place; in the model an object is identified with its key, the
  change of an object is the update of its entry, and the dictionaries are returned.
\<close>

record inventory =
  inv_items :: "(int, item) dict"
  inv_virtual_units :: "(int, virtual_storage_unit) dict"
  inv_shelves :: "(int, shelf) dict"

text \<open>The dictionary \<open>relocate_item\<close> returns.\<close>

record relocation_result =
  res_item_id :: int
  res_original_vsu_id :: int
  res_original_vsu_code :: string
  res_new_vsu_id :: int
  res_new_vsu_code :: string
  res_new_coordinates :: position
  res_stock_index :: int
  res_relocated_at :: datetime
  res_reason :: string

text \<open>
  The first statement of \<open>relocate_item\<close>: the history is loaded when the global is
  still \<open>None\<close>.
\<close>

definition ensure_history_loaded ::
  "datetime \<Rightarrow> history_world \<Rightarrow> (error + relocation_history) \<times> history_world" where
  "ensure_history_loaded now w =
     (case relocation_history_state w of
        Some h \<Rightarrow> (Inr h, w)
      | None \<Rightarrow> load_relocation_history now w)"

text \<open>
  The second half of \<open>relocate_item\<close>, from \<open># Remove item from original VSU\<close> on.
  \<open>item_id in original_vsu.items\<close> raises \<open>TypeError\<close> on \<open>None\<close>. The destination is
  the object under \<open>new_vsu_id\<close>: it is the origin itself, as changed so far, when the
  two ids are equal.
\<close>

definition move_item ::
  "datetime \<Rightarrow> int \<Rightarrow> string \<Rightarrow> item \<Rightarrow> int \<Rightarrow> virtual_storage_unit
   \<Rightarrow> int \<Rightarrow> string \<Rightarrow> virtual_storage_unit \<Rightarrow> relocation_history
   \<Rightarrow> inventory \<Rightarrow> history_world
   \<Rightarrow> (error + relocation_result) \<times> inventory \<times> history_world"
where
  "move_item now item_id rsn it orig_id original_vsu new_id new_code new_vsu history invt w =
     (case vsu_items original_vsu of
        None \<Rightarrow> (Inl TypeError, invt, w)
      | Some xs \<Rightarrow>
          (let xs1 = (if item_id \<in> set xs then remove1 item_id xs else xs);
               original_vsu1 = original_vsu
                 \<lparr>vsu_items := Some xs1,
                  occupied := (if xs1 = [] then False else occupied original_vsu)\<rparr>;
               vus1 = AList.update orig_id original_vsu1 (inv_virtual_units invt);
               new_vsu0 = (if new_id = orig_id then original_vsu1 else new_vsu);
               ys = (if \<not> truthy (vsu_items new_vsu0) then [] else the (vsu_items new_vsu0));
               ys1 = ys @ [item_id];
               new_vsu1 = new_vsu0\<lparr>vsu_items := Some ys1, occupied := True\<rparr>;
               vus2 = AList.update new_id new_vsu1 vus1;
               stock_idx = int (length ys1) - 1;
               it1 = it\<lparr>vsu_id := Some new_id, stock_index := stock_idx\<rparr>;
               invt' = invt\<lparr>inv_items := AList.update item_id it1 (inv_items invt),
                          inv_virtual_units := vus2\<rparr>;
               relocation_rec =
                 \<lparr>rr_item_id = item_id,
                  rr_product_id = product_id (metadata it),
                  rr_barcode = barcode (metadata it),
                  original_vsu_id = orig_id,
                  original_vsu_code = vsu_code original_vsu,
                  new_vsu_id = new_id,
                  new_vsu_code = new_code,
                  original_coordinates = vsu_position original_vsu,
                  new_coordinates = vsu_position new_vsu,
                  relocated_at = now,
                  reason = rsn\<rparr>;
               history1 = history
                 \<lparr>relocations :=
                    AList.update (next_relocation_id w) relocation_rec (relocations history)\<rparr>;
               w1 = w\<lparr>relocation_history_state := Some history1,
                      next_relocation_id := next_relocation_id w + 1\<rparr>
           in case save_relocation_history now history1 w1 of
                (Inl e, w2) \<Rightarrow> (Inl e, invt', w2)
              | (Inr _, w2) \<Rightarrow>
                  (Inr \<lparr>res_item_id = item_id,
                        res_original_vsu_id = orig_id,
                        res_original_vsu_code = vsu_code original_vsu,
                        res_new_vsu_id = new_id,
                        res_new_vsu_code = new_code,
                        res_new_coordinates = vsu_position new_vsu,
                        res_stock_index = stock_idx,
                        res_relocated_at = now,
                        res_reason = rsn\<rparr>,
                   invt', w2)))"

text \<open>
  \<open>relocate_item\<close>. An exception leaves the state as it is at the raise, so the state is
  returned with an error as well as with a result.
\<close>

definition relocate_item ::
  "datetime \<Rightarrow> int \<Rightarrow> string \<Rightarrow> inventory \<Rightarrow> history_world
   \<Rightarrow> (error + relocation_result) \<times> inventory \<times> history_world"
where
  "relocate_item now item_id rsn invt w =
     (case ensure_history_loaded now w of
        (Inl e, w0) \<Rightarrow> (Inl e, invt, w0)
      | (Inr history, w0) \<Rightarrow>
          (case map_of (inv_items invt) item_id of
             None \<Rightarrow> (Inl (HTTPException 404), invt, w0)
           | Some it \<Rightarrow>
               (case vsu_id it of
                  None \<Rightarrow> (Inl (HTTPException 400), invt, w0)
                | Some orig_id \<Rightarrow>
                    (case map_of (inv_virtual_units invt) orig_id of
                       None \<Rightarrow> (Inl KeyError, invt, w0)
                     | Some original_vsu \<Rightarrow>
                         (case find_empty_vsu_for_relocate it (shelf_id original_vsu)
                                 (inv_items invt) (inv_virtual_units invt) (inv_shelves invt) of
                            None \<Rightarrow> (Inl (HTTPException 503), invt, w0)
                          | Some (new_id, new_code, new_vsu) \<Rightarrow>
                              move_item now item_id rsn it orig_id original_vsu
                                new_id new_code new_vsu history invt w0)))))"

section \<open>The candidate search in the words of the specification\<close>

text \<open>
  The search as the specification words it, to be compared with the loops of the source:
  enumerate every shelf, for each shelf every VSU it contains, keep the VSUs with an
  empty occupant list which the item fits, and score each one with its locality
  relative to the shelf of the origin. A slot is empty when its occupant list is
  missing or has no element; a shelf is on the rack of the origin when the origin's
  shelf is known and has the same rack.
\<close>

definition slot_is_empty :: "virtual_storage_unit \<Rightarrow> bool" where
  "slot_is_empty vsu = (vsu_items vsu = None \<or> vsu_items vsu = Some [])"

definition same_rack_as_origin :: "(int, shelf) dict \<Rightarrow> int \<Rightarrow> shelf \<Rightarrow> bool" where
  "same_rack_as_origin shs origin_shelf sh =
     (case map_of shs origin_shelf of None \<Rightarrow> False | Some cur \<Rightarrow> rack_id sh = rack_id cur)"

definition spec_candidates ::
  "item \<Rightarrow> int \<Rightarrow> (int, virtual_storage_unit) dict \<Rightarrow> (int, shelf) dict \<Rightarrow> candidate list" where
  "spec_candidates it origin_shelf vus shs =
     [(calculate_vsu_fit_score it vsu (sid = origin_shelf) (same_rack_as_origin shs origin_shelf sh),
       vid, vsu_code vsu, vsu).
        (sid, sh) \<leftarrow> shs,
        vid \<leftarrow> virtual_units sh,
        vsu \<leftarrow> (case map_of vus vid of None \<Rightarrow> [] | Some v \<Rightarrow> [v]),
        slot_is_empty vsu, item_fits_vsu it vsu]"

text \<open>The occupant list of a VSU as a list: a missing list has no element.\<close>

definition occupants :: "virtual_storage_unit \<Rightarrow> int list" where
  "occupants vsu = (case vsu_items vsu of None \<Rightarrow> [] | Some xs \<Rightarrow> xs)"

section \<open>A small warehouse\<close>

text \<open>
  Concrete inventories on which the theorems below are exercised. Item 42 measures
  10 x 5 x 3 and sits in VSU 3 on shelf 1 of rack 1. VSU 7 is an empty slot on the same
  shelf (wasted space 50), VSU 8 a large empty slot on the same shelf (wasted space
  1850), VSU 12 an empty slot on shelf 3 of the same rack (wasted space 600) and VSU 21
  an empty slot on shelf 2 of rack 2 (wasted space 15).
\<close>

definition mk_vsu ::
  "int \<Rightarrow> string \<Rightarrow> int \<Rightarrow> int \<times> int \<times> int \<Rightarrow> int list option \<Rightarrow> bool \<Rightarrow> virtual_storage_unit"
where
  "mk_vsu i c sh d occ fl =
     \<lparr>vsu_ident = i, vsu_code = c,
      vsu_dims = \<lparr>vd_width = fst d, vd_height = fst (snd d), vd_depth = snd (snd d),
                  vd_volume = None\<rparr>,
      vsu_position = \<lparr>pos_x = i, pos_y = sh, pos_z = 0\<rparr>,
      shelf_id = sh, vsu_items = occ, occupied = fl\<rparr>"

definition mk_item :: "int \<Rightarrow> int option \<Rightarrow> int \<times> int \<times> int \<Rightarrow> item" where
  "mk_item i v d =
     \<lparr>item_ident = i, vsu_id = v, stock_index = 0,
      metadata = \<lparr>product_id = 7, barcode = ''X1'', batch = ''B1'', expiration = ''2030-01-01'',
                  dimensions = \<lparr>dim_width = fst d, dim_height = fst (snd d),
                                 dim_depth = snd (snd d), dim_weight = None\<rparr>\<rparr>\<rparr>"

definition item42 :: item where
  "item42 = mk_item 42 (Some 3) (10, 5, 3)"

definition vsu3 :: virtual_storage_unit where
  "vsu3 = mk_vsu 3 ''A-01-03'' 1 (10, 5, 3) (Some [42]) True"

definition vsu7 :: virtual_storage_unit where
  "vsu7 = mk_vsu 7 ''A-01-07'' 1 (10, 5, 4) (Some []) False"

definition vsu8 :: virtual_storage_unit where
  "vsu8 = mk_vsu 8 ''A-01-08'' 1 (20, 10, 10) (Some []) False"

definition vsu12 :: virtual_storage_unit where
  "vsu12 = mk_vsu 12 ''A-03-02'' 3 (10, 25, 3) None False"

definition vsu21 :: virtual_storage_unit where
  "vsu21 = mk_vsu 21 ''B-02-01'' 2 (11, 5, 3) None False"

definition shelf_a1 :: "int list \<Rightarrow> shelf" where
  "shelf_a1 vs = \<lparr>shelf_name = ''A-01'', rack_id = 1, virtual_units = vs\<rparr>"

definition shelf_a3 :: shelf where
  "shelf_a3 = \<lparr>shelf_name = ''A-03'', rack_id = 1, virtual_units = [12]\<rparr>"

definition shelf_b2 :: shelf where
  "shelf_b2 = \<lparr>shelf_name = ''B-02'', rack_id = 2, virtual_units = [21]\<rparr>"

text \<open>The warehouse with the slots 7 and 21 free: the same-shelf slot has the best score.\<close>

definition warehouse :: inventory where
  "warehouse =
     \<lparr>inv_items = [(42, item42)],
      inv_virtual_units = [(3, vsu3), (7, vsu7), (21, vsu21)],
      inv_shelves = [(2, shelf_b2), (1, shelf_a1 [3, 7])]\<rparr>"

text \<open>
  The warehouse whose free slots are the large VSU 8 on the shelf of item 42, VSU 12 on
  its rack and VSU 21 on another rack.
\<close>

definition wide_warehouse :: inventory where
  "wide_warehouse =
     \<lparr>inv_items = [(42, item42)],
      inv_virtual_units = [(3, vsu3), (8, vsu8), (12, vsu12), (21, vsu21)],
      inv_shelves = [(1, shelf_a1 [3, 8]), (3, shelf_a3), (2, shelf_b2)]\<rparr>"

text \<open>A warehouse with no free slot at all, and with an item 50 that is in no VSU.\<close>

definition full_warehouse :: inventory where
  "full_warehouse =
     \<lparr>inv_items = [(42, item42), (50, mk_item 50 None (1, 1, 1))],
      inv_virtual_units = [(3, vsu3)],
      inv_shelves = [(1, shelf_a1 [3])]\<rparr>"

text \<open>A process whose history is loaded and empty, with a writable file.\<close>

definition running :: history_world where
  "running =
     \<lparr>relocation_history_state = Some RelocationHistory_default, next_relocation_id = 1,
      history_file = Some (serialise [] (rh_metadata RelocationHistory_default)),
      history_writable = True\<rparr>"

text \<open>An inventory whose item names a VSU that the inventory does not hold.\<close>

definition orphan_warehouse :: inventory where
  "orphan_warehouse = \<lparr>inv_items = [(42, item42)], inv_virtual_units = [], inv_shelves = []\<rparr>"

text \<open>
  An inventory whose origin VSU holds two items while its \<open>occupied\<close> flag is not set.
\<close>

definition stale_vsu3 :: virtual_storage_unit where
  "stale_vsu3 = mk_vsu 3 ''A-01-03'' 1 (10, 5, 3) (Some [42, 43]) False"

definition stale_warehouse :: inventory where
  "stale_warehouse =
     \<lparr>inv_items = [(42, item42)],
      inv_virtual_units = [(3, stale_vsu3), (7, vsu7)],
      inv_shelves = [(1, shelf_a1 [3, 7])]\<rparr>"

text \<open>Two records with the ids 1 and 2, as a history file holds them.\<close>

definition sample_record :: "int \<Rightarrow> relocation_record" where
  "sample_record i =
     \<lparr>rr_item_id = i, rr_product_id = 7, rr_barcode = ''X1'',
      original_vsu_id = 3, original_vsu_code = ''A-01-03'',
      new_vsu_id = 7, new_vsu_code = ''A-01-07'',
      original_coordinates = \<lparr>pos_x = 3, pos_y = 1, pos_z = 0\<rparr>,
      new_coordinates = \<lparr>pos_x = 7, pos_y = 1, pos_z = 0\<rparr>,
      relocated_at = ''t0'', reason = ''obstruction_removal''\<rparr>"

definition two_records :: "(int, relocation_record) dict" where
  "two_records = [(1, sample_record 40), (2, sample_record 41)]"

text \<open>
  A history of two records whose metadata still count none, in a process with a writable
  file; and an archive of one item whose metadata hold no count at all, as after a load
  of a file whose \<open>"metadata"\<close> is an empty object.
\<close>

definition stale_history :: relocation_history where
  "stale_history =
     \<lparr>relocations = two_records,
      rh_metadata = [(''total_relocations'', JInt 0), (''last_updated'', JNull),
                     (''version'', JStr ''1.0'')]\<rparr>"

definition stale_history_world :: history_world where
  "stale_history_world =
     \<lparr>relocation_history_state = Some stale_history, next_relocation_id = 3,
      history_file = Some (serialise [] (rh_metadata RelocationHistory_default)),
      history_writable = True\<rparr>"

definition sample_archived_item :: archived_item where
  "sample_archived_item =
     \<lparr>ai_item_id = 42, ai_product_id = 7, ai_barcode = ''X1'', ai_batch = ''B1'',
      ai_expiration = ''2030-01-01'', ai_dimensions = (10, 5, 3), ai_weight = 0,
      ai_vsu_id = 3, ai_vsu_code = ''A-01-03'', ai_shelf_id = 1, ai_shelf_name = ''A-01'',
      ai_coordinates = \<lparr>pos_x = 3, pos_y = 1, pos_z = 0\<rparr>, ai_stock_index = 0,
      dispensed_at = ''t0'', task_id = ''task-1''\<rparr>"

definition stale_archive :: product_archive where
  "stale_archive = \<lparr>archive_items = [(42, sample_archived_item)], pa_metadata = []\<rparr>"

definition stale_archive_world :: archive_world where
  "stale_archive_world =
     \<lparr>product_archive_state = Some stale_archive, archive_file = None,
      archive_writable = True\<rparr>"

section \<open>Lemmas on sorting and on the scan\<close>

text \<open>
  The head of a list sorted by insertion on a key is the first element of the list
  whose key is minimal.
\<close>

lemma hd_insort_key:
  "hd (insort_key f x ys) = (if ys = [] \<or> f x \<le> f (hd ys) then x else hd ys)"
  by (cases ys) auto

lemma sort_key_Nil_iff: "sort_key f xs = [] \<longleftrightarrow> xs = []"
  by (metis length_0_conv length_sort)

lemma hd_sort_key_Cons:
  "hd (sort_key f (x # xs)) =
     (if xs = [] \<or> f x \<le> f (hd (sort_key f xs)) then x else hd (sort_key f xs))"
  by (simp add: hd_insort_key sort_key_Nil_iff)

lemma hd_sort_key_first_min:
  fixes f :: "'a \<Rightarrow> 'b::linorder"
  shows "xs \<noteq> [] \<Longrightarrow>
    \<exists>i<length xs. hd (sort_key f xs) = xs ! i \<and>
       (\<forall>j<length xs. f (xs ! i) \<le> f (xs ! j)) \<and> (\<forall>j<i. f (xs ! i) < f (xs ! j))"
proof (induction xs)
  case Nil
  then show ?case by simp
next
  case (Cons x xs)
  show ?case
  proof (cases "xs = []")
    case True
    then show ?thesis by simp
  next
    case False
    from Cons.IH [OF False] obtain i where i: "i < length xs"
      and hd_i: "hd (sort_key f xs) = xs ! i"
      and le: "\<forall>j<length xs. f (xs ! i) \<le> f (xs ! j)"
      and lt: "\<forall>j<i. f (xs ! i) < f (xs ! j)"
      by blast
    show ?thesis
    proof (cases "f x \<le> f (xs ! i)")
      case True
      have "hd (sort_key f (x # xs)) = x"
        using True hd_i by (simp only: hd_sort_key_Cons) simp
      moreover have "\<forall>j<length (x # xs). f x \<le> f ((x # xs) ! j)"
      proof (intro allI impI)
        fix j assume j: "j < length (x # xs)"
        show "f x \<le> f ((x # xs) ! j)"
        proof (cases j)
          case 0
          then show ?thesis by simp
        next
          case (Suc k)
          with j have "k < length xs" by simp
          with le have "f (xs ! i) \<le> f (xs ! k)" by blast
          with True Suc show ?thesis by simp
        qed
      qed
      ultimately have "0 < length (x # xs) \<and> hd (sort_key f (x # xs)) = (x # xs) ! 0 \<and>
          (\<forall>j<length (x # xs). f ((x # xs) ! 0) \<le> f ((x # xs) ! j)) \<and>
          (\<forall>j<0. f ((x # xs) ! 0) < f ((x # xs) ! j))"
        by simp
      then show ?thesis by blast
    next
      case not_le: False
      have h: "hd (sort_key f (x # xs)) = xs ! i"
        using not_le hd_i False by (simp only: hd_sort_key_Cons) simp
      have a: "\<forall>j<length (x # xs). f (xs ! i) \<le> f ((x # xs) ! j)"
      proof (intro allI impI)
        fix j assume j: "j < length (x # xs)"
        show "f (xs ! i) \<le> f ((x # xs) ! j)"
        proof (cases j)
          case 0
          with not_le show ?thesis by simp
        next
          case (Suc k)
          with j have "k < length xs" by simp
          with le Suc show ?thesis by simp
        qed
      qed
      have b: "\<forall>j<Suc i. f (xs ! i) < f ((x # xs) ! j)"
      proof (intro allI impI)
        fix j assume j: "j < Suc i"
        show "f (xs ! i) < f ((x # xs) ! j)"
        proof (cases j)
          case 0
          with not_le show ?thesis by simp
        next
          case (Suc k)
          with j have "k < i" by simp
          with lt Suc show ?thesis by simp
        qed
      qed
      have "Suc i < length (x # xs) \<and> hd (sort_key f (x # xs)) = (x # xs) ! Suc i \<and>
          (\<forall>j<length (x # xs). f ((x # xs) ! Suc i) \<le> f ((x # xs) ! j)) \<and>
          (\<forall>j<Suc i. f ((x # xs) ! Suc i) < f ((x # xs) ! j))"
        using i h a b by simp
      then show ?thesis by blast
    qed
  qed
qed

lemma scan_shelf_comprehension:
  "scan_shelf it ss sr vus vids =
     [(calculate_vsu_fit_score it vsu ss sr, vid, vsu_code vsu, vsu).
        vid \<leftarrow> vids,
        vsu \<leftarrow> (case map_of vus vid of None \<Rightarrow> [] | Some v \<Rightarrow> [v]),
        slot_is_empty vsu, item_fits_vsu it vsu]"
  by (induction vids) (auto simp: truthy_def slot_is_empty_def split: option.splits)

lemma scan_shelves_comprehension:
  "scan_shelves it sh_id cr vus shs =
     [(calculate_vsu_fit_score it vsu (sid = sh_id) (Some (rack_id sh) = cr), vid, vsu_code vsu, vsu).
        (sid, sh) \<leftarrow> shs,
        vid \<leftarrow> virtual_units sh,
        vsu \<leftarrow> (case map_of vus vid of None \<Rightarrow> [] | Some v \<Rightarrow> [v]),
        slot_is_empty vsu, item_fits_vsu it vsu]"
  by (induction shs) (auto simp: scan_shelf_comprehension)


lemma same_rack_conv:
  "(Some (rack_id sh) = (case map_of shs sh_id of Some c \<Rightarrow> Some (rack_id c) | None \<Rightarrow> None))
     = same_rack_as_origin shs sh_id sh"
  by (auto simp: same_rack_as_origin_def split: option.splits)

lemma scan_shelves_spec:
  "scan_shelves it sh_id (case map_of shs sh_id of Some c \<Rightarrow> Some (rack_id c) | None \<Rightarrow> None) vus shs
     = spec_candidates it sh_id vus shs"
  unfolding scan_shelves_comprehension spec_candidates_def same_rack_conv ..

lemma find_empty_vsu_conv:
  "find_empty_vsu_for_relocate it sh_id its vus shs =
     (if spec_candidates it sh_id vus shs = [] then None
      else Some (snd (hd (sort_key fst (spec_candidates it sh_id vus shs)))))"
proof -
  have "sort_key fst (spec_candidates it sh_id vus shs) \<noteq> []"
    if "spec_candidates it sh_id vus shs \<noteq> []"
    using that by (simp add: sort_key_Nil_iff)
  then show ?thesis
    by (auto simp: find_empty_vsu_for_relocate_def Let_def scan_shelves_spec split: list.splits)
qed

lemma spec_candidates_member:
  "(sc, vid, code, vsu) \<in> set (spec_candidates it sh_id vus shs) \<longleftrightarrow>
     (\<exists>sid sh. (sid, sh) \<in> set shs \<and> vid \<in> set (virtual_units sh) \<and>
        map_of vus vid = Some vsu \<and> slot_is_empty vsu \<and> item_fits_vsu it vsu \<and>
        code = vsu_code vsu \<and>
        sc = calculate_vsu_fit_score it vsu (sid = sh_id) (same_rack_as_origin shs sh_id sh))"
proof
  assume "(sc, vid, code, vsu) \<in> set (spec_candidates it sh_id vus shs)"
  then show "\<exists>sid sh. (sid, sh) \<in> set shs \<and> vid \<in> set (virtual_units sh) \<and>
        map_of vus vid = Some vsu \<and> slot_is_empty vsu \<and> item_fits_vsu it vsu \<and>
        code = vsu_code vsu \<and>
        sc = calculate_vsu_fit_score it vsu (sid = sh_id) (same_rack_as_origin shs sh_id sh)"
    by (fastforce simp: spec_candidates_def split: option.splits if_splits)
next
  assume "\<exists>sid sh. (sid, sh) \<in> set shs \<and> vid \<in> set (virtual_units sh) \<and>
        map_of vus vid = Some vsu \<and> slot_is_empty vsu \<and> item_fits_vsu it vsu \<and>
        code = vsu_code vsu \<and>
        sc = calculate_vsu_fit_score it vsu (sid = sh_id) (same_rack_as_origin shs sh_id sh)"
  then show "(sc, vid, code, vsu) \<in> set (spec_candidates it sh_id vus shs)"
    by (force simp: spec_candidates_def split: option.splits if_splits)
qed

lemma find_empty_vsu_first_min:
  assumes "find_empty_vsu_for_relocate it sh_id its vus shs = Some r"
  shows "\<exists>i<length (spec_candidates it sh_id vus shs).
           snd (spec_candidates it sh_id vus shs ! i) = r \<and>
           (\<forall>j<length (spec_candidates it sh_id vus shs).
               fst (spec_candidates it sh_id vus shs ! i) \<le> fst (spec_candidates it sh_id vus shs ! j)) \<and>
           (\<forall>j<i. fst (spec_candidates it sh_id vus shs ! i) < fst (spec_candidates it sh_id vus shs ! j))"
proof -
  let ?cs = "spec_candidates it sh_id vus shs"
  from assms have ne: "?cs \<noteq> []" and r: "r = snd (hd (sort_key fst ?cs))"
    by (auto simp: find_empty_vsu_conv split: if_splits)
  from hd_sort_key_first_min [OF ne, of fst] r show ?thesis
    by metis
qed

lemma find_empty_vsu_in_candidates:
  assumes "find_empty_vsu_for_relocate it sh_id its vus shs = Some r"
  shows "\<exists>sc. (sc, r) \<in> set (spec_candidates it sh_id vus shs)"
proof -
  from find_empty_vsu_first_min [OF assms] obtain i
    where "i < length (spec_candidates it sh_id vus shs)"
      and "snd (spec_candidates it sh_id vus shs ! i) = r" by blast
  then have "(fst (spec_candidates it sh_id vus shs ! i), r) \<in> set (spec_candidates it sh_id vus shs)"
    by (metis nth_mem prod.collapse)
  then show ?thesis ..
qed

lemma find_empty_vsu_Some:
  assumes "find_empty_vsu_for_relocate it sh_id its vus shs = Some (vid, code, vsu)"
  shows "map_of vus vid = Some vsu" and "code = vsu_code vsu" and "slot_is_empty vsu"
    and "item_fits_vsu it vsu"
    and "\<exists>sid sh. (sid, sh) \<in> set shs \<and> vid \<in> set (virtual_units sh)"
  using find_empty_vsu_in_candidates [OF assms] by (auto simp: spec_candidates_member)

lemma relocate_item_success:
  assumes "relocate_item now item_id rsn invt w = (Inr res, invt', w')"
  obtains h w0 it oid ov nid ncode nv where
    "ensure_history_loaded now w = (Inr h, w0)"
    "map_of (inv_items invt) item_id = Some it"
    "vsu_id it = Some oid"
    "map_of (inv_virtual_units invt) oid = Some ov"
    "find_empty_vsu_for_relocate it (shelf_id ov) (inv_items invt) (inv_virtual_units invt)
       (inv_shelves invt) = Some (nid, ncode, nv)"
    "move_item now item_id rsn it oid ov nid ncode nv h invt w0 = (Inr res, invt', w')"
  using assms unfolding relocate_item_def
  by (auto split: prod.splits sum.splits option.splits)

lemma ensure_history_loaded_already:
  "relocation_history_state w = Some h \<Longrightarrow> ensure_history_loaded now w = (Inr h, w)"
  by (simp add: ensure_history_loaded_def)

lemma move_item_no_HTTPException:
  "fst (move_item now item_id rsn it oid ov nid ncode nv h invt w) \<noteq> Inl (HTTPException c)"
  by (auto simp: move_item_def save_relocation_history_def Let_def split: option.splits prod.splits sum.splits if_splits)

lemma spec_candidates_Nil_iff:
  "spec_candidates it sh_id vus shs = [] \<longleftrightarrow>
     \<not> (\<exists>sid sh vid vsu. (sid, sh) \<in> set shs \<and> vid \<in> set (virtual_units sh) \<and>
           map_of vus vid = Some vsu \<and> slot_is_empty vsu \<and> item_fits_vsu it vsu)"
proof -
  have "spec_candidates it sh_id vus shs = [] \<longleftrightarrow>
          (\<forall>sc vid code vsu. (sc, vid, code, vsu) \<notin> set (spec_candidates it sh_id vus shs))"
    by (cases "spec_candidates it sh_id vus shs") auto
  also have "\<dots> \<longleftrightarrow> \<not> (\<exists>sid sh vid vsu. (sid, sh) \<in> set shs \<and> vid \<in> set (virtual_units sh) \<and>
           map_of vus vid = Some vsu \<and> slot_is_empty vsu \<and> item_fits_vsu it vsu)"
    unfolding spec_candidates_member by blast
  finally show ?thesis .
qed

lemma find_empty_vsu_None_iff:
  "find_empty_vsu_for_relocate it sh_id its vus shs = None \<longleftrightarrow> spec_candidates it sh_id vus shs = []"
  by (simp add: find_empty_vsu_conv)

lemmas warehouse_defs =
  warehouse_def wide_warehouse_def full_warehouse_def running_def item42_def
  vsu3_def vsu7_def vsu8_def vsu12_def vsu21_def shelf_a1_def shelf_a3_def shelf_b2_def
  mk_vsu_def mk_item_def RelocationHistory_default_def serialise_def
  orphan_warehouse_def stale_warehouse_def stale_vsu3_def

lemmas relocate_defs =
  relocate_item_def move_item_def ensure_history_loaded_def save_relocation_history_def
  find_empty_vsu_for_relocate_def truthy_def item_fits_vsu_def calculate_vsu_fit_score_def
  Let_def

section \<open>The claims\<close>




text \<open>
  C1, as amended. After a successful \<open>relocate_item\<close> on an item that exists, has a
  home VSU and is in the occupant list of that VSU: the first occurrence of the item id
  is removed from the origin's list, whose length decreases by 1; the origin's
  \<open>occupied\<close> flag is cleared when the list became empty and keeps its value
  otherwise; the destination is another VSU, the item id is appended to its list, whose
  length increases by 1, and its \<open>occupied\<close> flag is set; the item's \<open>vsu_id\<close> is the
  destination and its \<open>stock_index\<close>, which is also returned, is the length of the
  destination's list minus 1.
\<close>

theorem relocate_item_moves_item:
  assumes "relocate_item now item_id rsn invt w = (Inr res, invt', w')"
    and "map_of (inv_items invt) item_id = Some it"
    and "vsu_id it = Some oid"
    and "map_of (inv_virtual_units invt) oid = Some ov"
    and "vsu_items ov = Some xs"
    and "item_id \<in> set xs"
  shows "\<exists>ov' nv nv' it'.
      res_original_vsu_id res = oid \<and> res_new_vsu_id res \<noteq> oid \<and>
      map_of (inv_virtual_units invt') oid = Some ov' \<and>
      occupants ov' = remove1 item_id (occupants ov) \<and>
      length (occupants ov') = length (occupants ov) - 1 \<and>
      (occupied ov' \<longleftrightarrow> occupied ov \<and> occupants ov' \<noteq> []) \<and>
      map_of (inv_virtual_units invt) (res_new_vsu_id res) = Some nv \<and>
      map_of (inv_virtual_units invt') (res_new_vsu_id res) = Some nv' \<and>
      occupants nv' = occupants nv @ [item_id] \<and>
      length (occupants nv') = length (occupants nv) + 1 \<and>
      occupied nv' \<and>
      map_of (inv_items invt') item_id = Some it' \<and>
      vsu_id it' = Some (res_new_vsu_id res) \<and>
      stock_index it' = int (length (occupants nv')) - 1 \<and>
      res_stock_index res = stock_index it'"
proof -
  from assms(1) obtain h w0 it0 oid0 ov0 nid ncode nv where
    it0: "map_of (inv_items invt) item_id = Some it0" and
    oid0: "vsu_id it0 = Some oid0" and
    ov0: "map_of (inv_virtual_units invt) oid0 = Some ov0" and
    f: "find_empty_vsu_for_relocate it0 (shelf_id ov0) (inv_items invt) (inv_virtual_units invt)
       (inv_shelves invt) = Some (nid, ncode, nv)" and
    m: "move_item now item_id rsn it0 oid0 ov0 nid ncode nv h invt w0 = (Inr res, invt', w')"
    by (rule relocate_item_success)
  from it0 oid0 ov0 assms(2-4) have eqs: "it0 = it" "oid0 = oid" "ov0 = ov" by simp_all
  from find_empty_vsu_Some(1,3) [OF f] have nv: "map_of (inv_virtual_units invt) nid = Some nv"
    and e: "slot_is_empty nv" by simp_all
  from assms(5,6) have "\<not> slot_is_empty ov" by (auto simp: slot_is_empty_def)
  with e nv assms(4) have ne: "nid \<noteq> oid" by auto
  define ov' where "ov' = ov\<lparr>vsu_items := Some (remove1 item_id xs),
      occupied := (if remove1 item_id xs = [] then False else occupied ov)\<rparr>"
  define nv' where "nv' = nv\<lparr>vsu_items := Some (occupants nv @ [item_id]), occupied := True\<rparr>"
  define it' where "it' = it\<lparr>vsu_id := Some nid,
      stock_index := int (length (occupants nv @ [item_id])) - 1\<rparr>"
  have ys: "(if \<not> truthy (vsu_items nv) then [] else the (vsu_items nv)) = occupants nv"
    by (auto simp: truthy_def occupants_def split: option.splits)
  from m ne assms(5,6) have
    inv': "invt' = invt\<lparr>inv_items := AList.update item_id it' (inv_items invt),
        inv_virtual_units := AList.update nid nv' (AList.update oid ov' (inv_virtual_units invt))\<rparr>"
    and res: "res_original_vsu_id res = oid" "res_new_vsu_id res = nid"
      "res_stock_index res = int (length (occupants nv @ [item_id])) - 1"
    unfolding move_item_def eqs ov'_def nv'_def it'_def
    by (auto simp: Let_def ys split: prod.splits sum.splits)
  have a: "map_of (inv_virtual_units invt') oid = Some ov'"
    using ne by (simp add: inv' update_conv')
  have b: "map_of (inv_virtual_units invt') nid = Some nv'"
    by (simp add: inv' update_conv')
  have c: "map_of (inv_items invt') item_id = Some it'"
    by (simp add: inv' update_conv')
  have d: "occupants ov = xs" "occupants ov' = remove1 item_id xs"
    using assms(5) by (simp_all add: occupants_def ov'_def)
  have len: "length (remove1 item_id xs) = length xs - 1"
    using assms(6) by (simp add: length_remove1)
  have g: "occupants nv' = occupants nv @ [item_id]" "occupied nv'"
    by (simp_all add: occupants_def nv'_def)
  have k: "occupied ov' \<longleftrightarrow> occupied ov \<and> occupants ov' \<noteq> []"
    by (simp add: d) (simp add: ov'_def)
  have l: "vsu_id it' = Some nid" "stock_index it' = int (length (occupants nv')) - 1"
    by (simp_all add: it'_def g)
  show ?thesis
    apply (rule exI [of _ ov'], rule exI [of _ nv], rule exI [of _ nv'], rule exI [of _ it'])
    using a b c d len g k l res ne nv by simp
qed


theorem relocate_item_moves_item_witness:
  "\<exists>res invt' w'.
     relocate_item ''t1'' 42 ''obstruction_removal'' warehouse running = (Inr res, invt', w') \<and>
     map_of (inv_items warehouse) 42 = Some item42 \<and> vsu_id item42 = Some 3 \<and>
     map_of (inv_virtual_units warehouse) 3 = Some vsu3 \<and> vsu_items vsu3 = Some [42] \<and>
     (\<exists>ov' nv nv' it'.
        res_original_vsu_id res = 3 \<and> res_new_vsu_id res \<noteq> 3 \<and>
        map_of (inv_virtual_units invt') 3 = Some ov' \<and>
        occupants ov' = remove1 42 (occupants vsu3) \<and>
        length (occupants ov') = length (occupants vsu3) - 1 \<and>
        (occupied ov' \<longleftrightarrow> occupied vsu3 \<and> occupants ov' \<noteq> []) \<and>
        map_of (inv_virtual_units warehouse) (res_new_vsu_id res) = Some nv \<and>
        map_of (inv_virtual_units invt') (res_new_vsu_id res) = Some nv' \<and>
        occupants nv' = occupants nv @ [42] \<and>
        length (occupants nv') = length (occupants nv) + 1 \<and>
        occupied nv' \<and>
        map_of (inv_items invt') 42 = Some it' \<and>
        vsu_id it' = Some (res_new_vsu_id res) \<and>
        stock_index it' = int (length (occupants nv')) - 1 \<and>
        res_stock_index res = stock_index it')"
proof -
  obtain res invt' w' where
    eq: "relocate_item ''t1'' 42 ''obstruction_removal'' warehouse running = (Inr res, invt', w')"
    by (simp add: relocate_defs warehouse_defs)
  have a: "map_of (inv_items warehouse) 42 = Some item42"
    by (simp add: warehouse_def)
  have b: "vsu_id item42 = Some 3"
    by (simp add: item42_def mk_item_def)
  have c: "map_of (inv_virtual_units warehouse) 3 = Some vsu3"
    by (simp add: warehouse_def)
  have d: "vsu_items vsu3 = Some [42]"
    by (simp add: vsu3_def mk_vsu_def)
  have e: "(42::int) \<in> set [42]"
    by simp
  from relocate_item_moves_item [OF eq a b c d e] eq a b c d show ?thesis
    by blast
qed

text \<open>
  C1 as stated fails where the origin's flag was not set before the call: the origin
  keeps an occupant and its flag stays false.
\<close>

theorem relocate_item_stale_flag_counterexample:
  "map_of (inv_items stale_warehouse) 42 = Some item42 \<and> vsu_id item42 = Some 3 \<and>
   map_of (inv_virtual_units stale_warehouse) 3 = Some stale_vsu3 \<and>
   vsu_items stale_vsu3 = Some [42, 43] \<and>
   \<not> isl (fst (relocate_item ''t1'' 42 ''obstruction_removal'' stale_warehouse running)) \<and>
   map_of (inv_virtual_units
            (fst (snd (relocate_item ''t1'' 42 ''obstruction_removal'' stale_warehouse running)))) 3
     = Some (mk_vsu 3 ''A-01-03'' 1 (10, 5, 3) (Some [43]) False)"
  by (simp add: relocate_defs warehouse_defs stale_warehouse_def stale_vsu3_def)

text \<open>
  C2. The claim asks that a same-shelf candidate scores below every same-rack
  candidate, and that one below every other candidate, whatever their wasted space. The
  source evaluated on the wide warehouse: the same-shelf slot 8 wastes 1850 and scores
  850, the same-rack slot 12 wastes 600 and scores 100, the slot 21 on another rack
  wastes 15 and scores 15, and the search returns slot 21.
\<close>

theorem locality_bonus_overridden_by_wasted_space:
  "calculate_vsu_fit_score item42 vsu8 True True = 850 \<and>
   calculate_vsu_fit_score item42 vsu12 False True = 100 \<and>
   calculate_vsu_fit_score item42 vsu21 False False = 15 \<and>
   spec_candidates item42 1 (inv_virtual_units wide_warehouse) (inv_shelves wide_warehouse)
     = [(850, 8, ''A-01-08'', vsu8), (100, 12, ''A-03-02'', vsu12), (15, 21, ''B-02-01'', vsu21)] \<and>
   find_empty_vsu_for_relocate item42 1 (inv_items wide_warehouse)
     (inv_virtual_units wide_warehouse) (inv_shelves wide_warehouse) = Some (21, ''B-02-01'', vsu21)"
  by (simp add: relocate_defs spec_candidates_def slot_is_empty_def same_rack_as_origin_def
      warehouse_defs)

text \<open>
  What the scores do guarantee: within one locality tier the candidate with less wasted
  space has the lower score, and a better tier wins as long as its wasted space exceeds
  the other's by less than the difference of the bonuses.
\<close>

lemma fit_score_same_tier:
  "vsu_volume_of a - item_volume_of it < vsu_volume_of b - item_volume_of it \<Longrightarrow>
     calculate_vsu_fit_score it a ss sr < calculate_vsu_fit_score it b ss sr"
  by (simp add: calculate_vsu_fit_score_def vsu_volume_of_def item_volume_of_def)

lemma fit_score_better_tier:
  assumes "vsu_volume_of a - item_volume_of it < vsu_volume_of b - item_volume_of it + 500"
  shows "calculate_vsu_fit_score it a True sr < calculate_vsu_fit_score it b False sr'"
    and "calculate_vsu_fit_score it a False True < calculate_vsu_fit_score it b False False"
  using assms
  by (simp_all add: calculate_vsu_fit_score_def vsu_volume_of_def item_volume_of_def)

text \<open>
  C3, as amended. When the history is loaded, or its first load succeeds,
  \<open>relocate_item\<close> fails with status 404 exactly when the item id is not in the
  inventory, with status 400 exactly when the item exists and has no VSU, and with
  status 503 exactly when the item exists, its VSU is in the inventory and no empty VSU
  listed on a shelf fits the item. In each of these three cases the inventory is
  returned as it was, and the history is as the first statement of the function left
  it.
\<close>

theorem relocate_item_failure_classes:
  assumes "ensure_history_loaded now w = (Inr h, w0)"
  shows
   "(fst (relocate_item now item_id rsn invt w) = Inl (HTTPException 404)
       \<longleftrightarrow> map_of (inv_items invt) item_id = None) \<and>
    (fst (relocate_item now item_id rsn invt w) = Inl (HTTPException 400)
       \<longleftrightarrow> (\<exists>it. map_of (inv_items invt) item_id = Some it \<and> vsu_id it = None)) \<and>
    (fst (relocate_item now item_id rsn invt w) = Inl (HTTPException 503)
       \<longleftrightarrow> (\<exists>it oid ov. map_of (inv_items invt) item_id = Some it \<and> vsu_id it = Some oid \<and>
              map_of (inv_virtual_units invt) oid = Some ov \<and>
              \<not> (\<exists>sid sh vid vsu. (sid, sh) \<in> set (inv_shelves invt) \<and>
                    vid \<in> set (virtual_units sh) \<and>
                    map_of (inv_virtual_units invt) vid = Some vsu \<and>
                    slot_is_empty vsu \<and> item_fits_vsu it vsu))) \<and>
    ((\<exists>c. fst (relocate_item now item_id rsn invt w) = Inl (HTTPException c))
       \<longrightarrow> snd (relocate_item now item_id rsn invt w) = (invt, w0)) \<and>
    (relocation_history_state w \<noteq> None \<longrightarrow> w0 = w)"
proof -
  note mv = move_item_no_HTTPException
  have c1: "fst (relocate_item now item_id rsn invt w) = Inl (HTTPException 404)
       \<longleftrightarrow> map_of (inv_items invt) item_id = None"
    using assms mv
    by (auto simp: relocate_item_def split: option.splits prod.splits)
  have c2: "fst (relocate_item now item_id rsn invt w) = Inl (HTTPException 400)
       \<longleftrightarrow> (\<exists>it. map_of (inv_items invt) item_id = Some it \<and> vsu_id it = None)"
    using assms mv
    by (auto simp: relocate_item_def split: option.splits prod.splits)
  have c3: "fst (relocate_item now item_id rsn invt w) = Inl (HTTPException 503)
       \<longleftrightarrow> (\<exists>it oid ov. map_of (inv_items invt) item_id = Some it \<and> vsu_id it = Some oid \<and>
              map_of (inv_virtual_units invt) oid = Some ov \<and>
              find_empty_vsu_for_relocate it (shelf_id ov) (inv_items invt)
                (inv_virtual_units invt) (inv_shelves invt) = None)"
    using assms mv
    by (auto simp: relocate_item_def split: option.splits prod.splits)
  have c4: "(\<exists>c. fst (relocate_item now item_id rsn invt w) = Inl (HTTPException c))
       \<longrightarrow> snd (relocate_item now item_id rsn invt w) = (invt, w0)"
    using assms mv
    by (auto simp: relocate_item_def split: option.splits prod.splits)
  have c5: "relocation_history_state w \<noteq> None \<longrightarrow> w0 = w"
    using assms ensure_history_loaded_already [of w _ now] by auto
  show ?thesis
    using c1 c2 c3 c4 c5
    by (simp only: find_empty_vsu_None_iff spec_candidates_Nil_iff)
qed


theorem relocate_item_failure_classes_witness:
  "ensure_history_loaded ''t1'' running = (Inr RelocationHistory_default, running) \<and>
   fst (relocate_item ''t1'' 99 ''obstruction_removal'' full_warehouse running)
     = Inl (HTTPException 404) \<and>
   map_of (inv_items full_warehouse) 99 = None \<and>
   fst (relocate_item ''t1'' 50 ''obstruction_removal'' full_warehouse running)
     = Inl (HTTPException 400) \<and>
   fst (relocate_item ''t1'' 42 ''obstruction_removal'' full_warehouse running)
     = Inl (HTTPException 503) \<and>
   snd (relocate_item ''t1'' 42 ''obstruction_removal'' full_warehouse running)
     = (full_warehouse, running)"
proof -
  have a: "ensure_history_loaded ''t1'' running = (Inr RelocationHistory_default, running)"
    by (simp add: ensure_history_loaded_def running_def)
  have b: "fst (relocate_item ''t1'' 42 ''obstruction_removal'' full_warehouse running)
     = Inl (HTTPException 503)"
    by (simp add: relocate_defs warehouse_defs)
  have c: "map_of (inv_items full_warehouse) 99 = None"
    by (simp add: warehouse_defs)
  have d: "map_of (inv_items full_warehouse) 50 = Some (mk_item 50 None (1, 1, 1))"
    "vsu_id (mk_item 50 None (1, 1, 1)) = None"
    by (simp_all add: warehouse_defs)
  have e: "fst (relocate_item ''t1'' 99 ''obstruction_removal'' full_warehouse running)
     = Inl (HTTPException 404)"
    using relocate_item_failure_classes [OF a, of 99 "''obstruction_removal''" full_warehouse] c
    by (elim conjE) simp
  have f: "fst (relocate_item ''t1'' 50 ''obstruction_removal'' full_warehouse running)
     = Inl (HTTPException 400)"
    using relocate_item_failure_classes [OF a, of 50 "''obstruction_removal''" full_warehouse] d
    by (elim conjE) simp
  have g: "snd (relocate_item ''t1'' 42 ''obstruction_removal'' full_warehouse running)
     = (full_warehouse, running)"
    using relocate_item_failure_classes [OF a, of 42 "''obstruction_removal''" full_warehouse] b
    by (elim conjE) simp
  from a b c e f g show ?thesis by simp
qed

text \<open>
  C3 as stated fails where the item names a VSU that the inventory does not hold: no
  fitting empty slot exists anywhere, and the call fails with \<open>KeyError\<close>, not with
  status 503.
\<close>

theorem relocate_item_missing_origin_counterexample:
  "map_of (inv_items orphan_warehouse) 42 = Some item42 \<and> vsu_id item42 = Some 3 \<and>
   inv_virtual_units orphan_warehouse = [] \<and> inv_shelves orphan_warehouse = [] \<and>
   relocation_history_state running = Some RelocationHistory_default \<and>
   fst (relocate_item ''t1'' 42 ''obstruction_removal'' orphan_warehouse running) = Inl KeyError \<and>
   fst (relocate_item ''t1'' 42 ''obstruction_removal'' orphan_warehouse running)
     \<noteq> Inl (HTTPException 503)"
  by (simp add: relocate_defs warehouse_defs orphan_warehouse_def)

text \<open>
  C4. The candidates of \<open>find_empty_vsu_for_relocate\<close> are, in the order of the scan,
  the VSUs of every shelf that the inventory holds, that are empty and that the item
  fits. The function returns \<open>None\<close> exactly when there is no candidate; otherwise it
  returns a candidate of minimum score, and every candidate scanned before it has a
  strictly greater score. What it returns is a VSU of the inventory, listed on a shelf.
\<close>

theorem find_empty_vsu_for_relocate_first_minimum:
  "(\<forall>sc vid code vsu.
      (sc, vid, code, vsu) \<in> set (spec_candidates it sh_id vus shs) \<longleftrightarrow>
        (\<exists>sid sh. (sid, sh) \<in> set shs \<and> vid \<in> set (virtual_units sh) \<and>
           map_of vus vid = Some vsu \<and> slot_is_empty vsu \<and> item_fits_vsu it vsu \<and>
           code = vsu_code vsu \<and>
           sc = calculate_vsu_fit_score it vsu (sid = sh_id) (same_rack_as_origin shs sh_id sh))) \<and>
   (find_empty_vsu_for_relocate it sh_id its vus shs = None
      \<longleftrightarrow> spec_candidates it sh_id vus shs = []) \<and>
   (\<forall>r. find_empty_vsu_for_relocate it sh_id its vus shs = Some r \<longrightarrow>
      (\<exists>i<length (spec_candidates it sh_id vus shs).
         snd (spec_candidates it sh_id vus shs ! i) = r \<and>
         (\<forall>j<length (spec_candidates it sh_id vus shs).
            fst (spec_candidates it sh_id vus shs ! i) \<le> fst (spec_candidates it sh_id vus shs ! j)) \<and>
         (\<forall>j<i. fst (spec_candidates it sh_id vus shs ! i) < fst (spec_candidates it sh_id vus shs ! j)))) \<and>
   (\<forall>vid code vsu. find_empty_vsu_for_relocate it sh_id its vus shs = Some (vid, code, vsu) \<longrightarrow>
      map_of vus vid = Some vsu \<and> (\<exists>sid sh. (sid, sh) \<in> set shs \<and> vid \<in> set (virtual_units sh)))"
proof -
  have a: "\<forall>sc vid code vsu.
      (sc, vid, code, vsu) \<in> set (spec_candidates it sh_id vus shs) \<longleftrightarrow>
        (\<exists>sid sh. (sid, sh) \<in> set shs \<and> vid \<in> set (virtual_units sh) \<and>
           map_of vus vid = Some vsu \<and> slot_is_empty vsu \<and> item_fits_vsu it vsu \<and>
           code = vsu_code vsu \<and>
           sc = calculate_vsu_fit_score it vsu (sid = sh_id) (same_rack_as_origin shs sh_id sh))"
    by (simp only: spec_candidates_member) simp
  have b: "find_empty_vsu_for_relocate it sh_id its vus shs = None
      \<longleftrightarrow> spec_candidates it sh_id vus shs = []"
    by (rule find_empty_vsu_None_iff)
  have c: "\<forall>r. find_empty_vsu_for_relocate it sh_id its vus shs = Some r \<longrightarrow>
      (\<exists>i<length (spec_candidates it sh_id vus shs).
         snd (spec_candidates it sh_id vus shs ! i) = r \<and>
         (\<forall>j<length (spec_candidates it sh_id vus shs).
            fst (spec_candidates it sh_id vus shs ! i) \<le> fst (spec_candidates it sh_id vus shs ! j)) \<and>
         (\<forall>j<i. fst (spec_candidates it sh_id vus shs ! i) < fst (spec_candidates it sh_id vus shs ! j)))"
    using find_empty_vsu_first_min by blast
  have d: "\<forall>vid code vsu. find_empty_vsu_for_relocate it sh_id its vus shs = Some (vid, code, vsu) \<longrightarrow>
      map_of vus vid = Some vsu \<and> (\<exists>sid sh. (sid, sh) \<in> set shs \<and> vid \<in> set (virtual_units sh))"
    using find_empty_vsu_Some(1,5) by blast
  from a b c d show ?thesis by (intro conjI)
qed

theorem find_empty_vsu_for_relocate_first_minimum_witness:
  "find_empty_vsu_for_relocate item42 1 (inv_items warehouse) (inv_virtual_units warehouse)
     (inv_shelves warehouse) = Some (7, ''A-01-07'', vsu7) \<and>
   spec_candidates item42 1 (inv_virtual_units warehouse) (inv_shelves warehouse)
     = [(15, 21, ''B-02-01'', vsu21), (- 950, 7, ''A-01-07'', vsu7)] \<and>
   (\<exists>i<length (spec_candidates item42 1 (inv_virtual_units warehouse) (inv_shelves warehouse)).
      snd (spec_candidates item42 1 (inv_virtual_units warehouse) (inv_shelves warehouse) ! i)
        = (7, ''A-01-07'', vsu7)) \<and>
   map_of (inv_virtual_units warehouse) 7 = Some vsu7"
proof -
  have f: "find_empty_vsu_for_relocate item42 1 (inv_items warehouse) (inv_virtual_units warehouse)
     (inv_shelves warehouse) = Some (7, ''A-01-07'', vsu7)"
    by (simp add: relocate_defs warehouse_defs)
  have g: "spec_candidates item42 1 (inv_virtual_units warehouse) (inv_shelves warehouse)
     = [(15, 21, ''B-02-01'', vsu21), (- 950, 7, ''A-01-07'', vsu7)]"
    by (simp add: spec_candidates_def slot_is_empty_def same_rack_as_origin_def
        item_fits_vsu_def calculate_vsu_fit_score_def warehouse_defs)
  from find_empty_vsu_for_relocate_first_minimum
    [of item42 1 "inv_virtual_units warehouse" "inv_shelves warehouse" "inv_items warehouse"] f g
  show ?thesis by blast
qed

text \<open>
  C5. The fit predicate holds iff width, height and depth of the item are each at most
  the slot's, axis by axis: an item of 5 x 10 x 3 does not fit a slot of 10 x 5 x 3. The
  fit score is the slot's volume minus the item's volume, plus the bonus: -1000 on the
  current shelf, -500 on the current rack only, 0 otherwise.
\<close>

theorem fit_predicate_and_fit_score:
  "(item_fits_vsu it vsu \<longleftrightarrow>
      dim_width (dimensions (metadata it)) \<le> vd_width (vsu_dims vsu) \<and>
      dim_height (dimensions (metadata it)) \<le> vd_height (vsu_dims vsu) \<and>
      dim_depth (dimensions (metadata it)) \<le> vd_depth (vsu_dims vsu)) \<and>
   calculate_vsu_fit_score it vsu is_same_shelf is_same_rack =
     vsu_volume_of vsu - item_volume_of it +
       (if is_same_shelf then - 1000 else if is_same_rack then - 500 else 0) \<and>
   \<not> item_fits_vsu (mk_item 1 None (5, 10, 3)) (mk_vsu 3 ''A-01-03'' 1 (10, 5, 3) None False)"
  by (simp add: item_fits_vsu_def calculate_vsu_fit_score_def vsu_volume_of_def item_volume_of_def
      mk_item_def mk_vsu_def)




section \<open>The claims on the two stores\<close>

text \<open>
  C8. After a successful save of either aggregate, the count in its metadata is the
  number of its records: \<open>total_relocations\<close> for the history, \<open>total_items\<close> for the
  archive; the records are not changed by the save, and the file holds them with that
  metadata.
\<close>

theorem save_sets_metadata_count:
  "(\<forall>w'. save_relocation_history now h w = (Inr (), w') \<longrightarrow>
      (\<exists>h'. relocation_history_state w' = Some h' \<and> relocations h' = relocations h \<and>
         map_of (rh_metadata h') ''total_relocations'' = Some (JInt (int (length (relocations h')))) \<and>
         history_file w' = Some (serialise (relocations h') (rh_metadata h')))) \<and>
   (\<forall>v'. save_product_archive now a v = (Inr (), v') \<longrightarrow>
      (\<exists>a'. product_archive_state v' = Some a' \<and> archive_items a' = archive_items a \<and>
         map_of (pa_metadata a') ''total_items'' = Some (JInt (int (length (archive_items a')))) \<and>
         archive_file v' = Some (serialise (archive_items a') (pa_metadata a')))) \<and>
   (fst (save_relocation_history now h w) = Inr () \<longleftrightarrow> history_writable w) \<and>
   (fst (save_product_archive now a v) = Inr () \<longleftrightarrow> archive_writable v)"
  by (auto simp: save_relocation_history_def save_product_archive_def Let_def update_conv'
      split: if_splits)

text \<open>
  The theorem at aggregates whose count is stale: a history of two records counted as
  none becomes one counted as 2, an archive of one item with no count becomes one
  counted as 1.
\<close>

theorem save_sets_metadata_count_witness:
  "map_of (rh_metadata stale_history) ''total_relocations'' = Some (JInt 0) \<and>
   length (relocations stale_history) = 2 \<and>
   (\<exists>w'. save_relocation_history ''t1'' stale_history stale_history_world = (Inr (), w') \<and>
      (\<exists>h'. relocation_history_state w' = Some h' \<and> relocations h' = two_records \<and>
         map_of (rh_metadata h') ''total_relocations'' = Some (JInt 2) \<and>
         history_file w' = Some (serialise two_records (rh_metadata h')))) \<and>
   map_of (pa_metadata stale_archive) ''total_items'' = None \<and>
   length (archive_items stale_archive) = 1 \<and>
   (\<exists>v'. save_product_archive ''t1'' stale_archive stale_archive_world = (Inr (), v') \<and>
      (\<exists>a'. product_archive_state v' = Some a' \<and>
         archive_items a' = [(42, sample_archived_item)] \<and>
         map_of (pa_metadata a') ''total_items'' = Some (JInt 1) \<and>
         archive_file v' = Some (serialise [(42, sample_archived_item)] (pa_metadata a'))))"
proof -
  have hw: "history_writable stale_history_world"
    by (simp add: stale_history_world_def)
  have aw: "archive_writable stale_archive_world"
    by (simp add: stale_archive_world_def)
  note t = save_sets_metadata_count
    [where now = "''t1''" and h = stale_history and w = stale_history_world
       and a = stale_archive and v = stale_archive_world]
  from t hw obtain w' where
    a: "save_relocation_history ''t1'' stale_history stale_history_world = (Inr (), w')"
    by (cases "save_relocation_history ''t1'' stale_history stale_history_world") auto
  from t aw obtain v' where
    b: "save_product_archive ''t1'' stale_archive stale_archive_world = (Inr (), v')"
    by (cases "save_product_archive ''t1'' stale_archive stale_archive_world") auto
  from t a obtain h' where h':
    "relocation_history_state w' = Some h'" "relocations h' = relocations stale_history"
    "map_of (rh_metadata h') ''total_relocations'' = Some (JInt (int (length (relocations h'))))"
    "history_file w' = Some (serialise (relocations h') (rh_metadata h'))"
    by blast
  have rs: "relocations stale_history = two_records" "length two_records = 2"
    by (simp_all add: stale_history_def two_records_def)
  from h' rs have c: "\<exists>h'. relocation_history_state w' = Some h' \<and> relocations h' = two_records \<and>
         map_of (rh_metadata h') ''total_relocations'' = Some (JInt 2) \<and>
         history_file w' = Some (serialise two_records (rh_metadata h'))"
    by (intro exI [of _ h']) simp
  from t b obtain a' where a':
    "product_archive_state v' = Some a'" "archive_items a' = archive_items stale_archive"
    "map_of (pa_metadata a') ''total_items'' = Some (JInt (int (length (archive_items a'))))"
    "archive_file v' = Some (serialise (archive_items a') (pa_metadata a'))"
    by blast
  have ai: "archive_items stale_archive = [(42, sample_archived_item)]"
    by (simp add: stale_archive_def)
  from a' ai have d: "\<exists>a'. product_archive_state v' = Some a' \<and>
         archive_items a' = [(42, sample_archived_item)] \<and>
         map_of (pa_metadata a') ''total_items'' = Some (JInt 1) \<and>
         archive_file v' = Some (serialise [(42, sample_archived_item)] (pa_metadata a'))"
    by (intro exI [of _ a']) simp
  have e: "map_of (rh_metadata stale_history) ''total_relocations'' = Some (JInt 0)"
    "length (relocations stale_history) = 2"
    by (simp_all add: stale_history_def two_records_def)
  have f: "map_of (pa_metadata stale_archive) ''total_items'' = None"
    "length (archive_items stale_archive) = 1"
    by (simp_all add: stale_archive_def)
  from a b c d e f show ?thesis by blast
qed

lemma load_relocation_history_errors:
  "fst (load_relocation_history now w) = Inl e \<Longrightarrow> e = OSError"
  by (auto simp: load_relocation_history_def init_relocation_history_def
      save_relocation_history_def Let_def split: option.splits prod.splits sum.splits if_splits)

lemma load_product_archive_errors:
  "fst (load_product_archive now v) = Inl e \<Longrightarrow> e = OSError"
  by (auto simp: load_product_archive_def init_product_archive_def
      save_product_archive_def Let_def split: option.splits prod.splits sum.splits if_splits)

lemma convert_entries_fails_iff:
  "(\<exists>e. convert_entries es d = Inl e) \<longleftrightarrow> list_ex (\<lambda>(k, v). k = None \<or> v = None) es"
  by (induction es arbitrary: d) (auto split: option.splits)

lemma try_load_relocation_history_fails_iff:
  "(\<exists>e. fst (try_load_relocation_history content n) = Inl e) \<longleftrightarrow> fails_to_parse content"
proof (cases content)
  case NotJSON
  then show ?thesis by (simp add: try_load_relocation_history_def fails_to_parse_def)
next
  case (JSONDocument recs md)
  show ?thesis
  proof (cases recs)
    case Absent
    with JSONDocument show ?thesis
      by (cases md) (simp_all add: try_load_relocation_history_def fails_to_parse_def entries_of_def)
  next
    case Invalid
    with JSONDocument show ?thesis
      by (simp add: try_load_relocation_history_def fails_to_parse_def entries_of_def)
  next
    case (Present es)
    show ?thesis
    proof (cases "convert_entries es []")
      case (Inl e)
      then have "list_ex (\<lambda>(k, v). k = None \<or> v = None) es"
        using convert_entries_fails_iff [of es "[]"] by simp
      with Inl JSONDocument Present show ?thesis
        by (simp add: try_load_relocation_history_def fails_to_parse_def entries_of_def)
    next
      case (Inr d)
      then have "\<not> list_ex (\<lambda>(k, v). k = None \<or> v = None) es"
        using convert_entries_fails_iff [of es "[]"] by simp
      with Inr JSONDocument Present show ?thesis
        by (cases md) (simp_all add: try_load_relocation_history_def fails_to_parse_def entries_of_def Let_def)
    qed
  qed
qed

lemma try_load_product_archive_fails_iff:
  "(\<exists>e. try_load_product_archive content = Inl e) \<longleftrightarrow> fails_to_parse content"
proof (cases content)
  case NotJSON
  then show ?thesis by (simp add: try_load_product_archive_def fails_to_parse_def)
next
  case (JSONDocument recs md)
  show ?thesis
  proof (cases recs)
    case Absent
    with JSONDocument show ?thesis
      by (cases md) (simp_all add: try_load_product_archive_def fails_to_parse_def entries_of_def)
  next
    case Invalid
    with JSONDocument show ?thesis
      by (simp add: try_load_product_archive_def fails_to_parse_def entries_of_def)
  next
    case (Present es)
    show ?thesis
    proof (cases "convert_entries es []")
      case (Inl e)
      then have "list_ex (\<lambda>(k, v). k = None \<or> v = None) es"
        using convert_entries_fails_iff [of es "[]"] by simp
      with Inl JSONDocument Present show ?thesis
        by (simp add: try_load_product_archive_def fails_to_parse_def entries_of_def)
    next
      case (Inr d)
      then have "\<not> list_ex (\<lambda>(k, v). k = None \<or> v = None) es"
        using convert_entries_fails_iff [of es "[]"] by simp
      with Inr JSONDocument Present show ?thesis
        by (cases md) (simp_all add: try_load_product_archive_def fails_to_parse_def entries_of_def)
    qed
  qed
qed

lemma load_relocation_history_fallback:
  assumes "history_file w = Some content" and "history_writable w"
    and "fst (try_load_relocation_history content (next_relocation_id w)) = Inl e"
  shows "fst (load_relocation_history now w) = Inr (saved_empty_history now)"
    and "relocation_history_state (snd (load_relocation_history now w)) = Some (saved_empty_history now)"
    and "history_file (snd (load_relocation_history now w))
         = Some (serialise [] (rh_metadata (saved_empty_history now)))"
  using assms
  by (auto simp: load_relocation_history_def init_relocation_history_def
      save_relocation_history_def saved_empty_history_def RelocationHistory_default_def Let_def
      split: prod.splits sum.splits)

lemma load_product_archive_fallback:
  assumes "archive_file v = Some content" and "archive_writable v"
    and "try_load_product_archive content = Inl e"
  shows "fst (load_product_archive now v) = Inr (saved_empty_archive now)"
    and "product_archive_state (snd (load_product_archive now v)) = Some (saved_empty_archive now)"
    and "archive_file (snd (load_product_archive now v))
         = Some (serialise [] (pa_metadata (saved_empty_archive now)))"
  using assms
  by (auto simp: load_product_archive_def init_product_archive_def
      save_product_archive_def saved_empty_archive_def ProductArchive_default_def Let_def
      split: prod.splits sum.splits)

text \<open>
  C7. For the history and for the archive: when the file exists, fails to parse or
  validate and can be written, the load function returns an empty aggregate, binds the
  global to it and overwrites the file with it. A load function raises nothing but the
  error of a write that fails.
\<close>

theorem load_falls_back_on_corrupt_file:
  "(\<forall>content. history_file w = Some content \<and> fails_to_parse content \<and> history_writable w \<longrightarrow>
       fst (load_relocation_history now w) = Inr (saved_empty_history now) \<and>
       relocations (saved_empty_history now) = [] \<and>
       relocation_history_state (snd (load_relocation_history now w)) = Some (saved_empty_history now) \<and>
       history_file (snd (load_relocation_history now w))
         = Some (serialise [] (rh_metadata (saved_empty_history now)))) \<and>
   (\<forall>content. archive_file v = Some content \<and> fails_to_parse content \<and> archive_writable v \<longrightarrow>
       fst (load_product_archive now v) = Inr (saved_empty_archive now) \<and>
       archive_items (saved_empty_archive now) = [] \<and>
       product_archive_state (snd (load_product_archive now v)) = Some (saved_empty_archive now) \<and>
       archive_file (snd (load_product_archive now v))
         = Some (serialise [] (pa_metadata (saved_empty_archive now)))) \<and>
   (\<forall>e. fst (load_relocation_history now w) = Inl e \<longrightarrow> e = OSError) \<and>
   (\<forall>e. fst (load_product_archive now v) = Inl e \<longrightarrow> e = OSError)"
proof -
  have a: "fst (load_relocation_history now w) = Inr (saved_empty_history now) \<and>
       relocations (saved_empty_history now) = [] \<and>
       relocation_history_state (snd (load_relocation_history now w)) = Some (saved_empty_history now) \<and>
       history_file (snd (load_relocation_history now w))
         = Some (serialise [] (rh_metadata (saved_empty_history now)))"
    if "history_file w = Some content" and "fails_to_parse content" and "history_writable w"
    for content
  proof -
    from that(2) obtain e where
      "fst (try_load_relocation_history content (next_relocation_id w)) = Inl e"
      using try_load_relocation_history_fails_iff by blast
    from load_relocation_history_fallback [OF that(1) that(3) this] show ?thesis
      by (simp add: saved_empty_history_def)
  qed
  have b: "fst (load_product_archive now v) = Inr (saved_empty_archive now) \<and>
       archive_items (saved_empty_archive now) = [] \<and>
       product_archive_state (snd (load_product_archive now v)) = Some (saved_empty_archive now) \<and>
       archive_file (snd (load_product_archive now v))
         = Some (serialise [] (pa_metadata (saved_empty_archive now)))"
    if "archive_file v = Some content" and "fails_to_parse content" and "archive_writable v"
    for content
  proof -
    from that(2) obtain e where "try_load_product_archive content = Inl e"
      using try_load_product_archive_fails_iff by blast
    from load_product_archive_fallback [OF that(1) that(3) this] show ?thesis
      by (simp add: saved_empty_archive_def)
  qed
  from a b load_relocation_history_errors load_product_archive_errors show ?thesis
    by blast
qed

theorem load_falls_back_on_corrupt_file_witness:
  "history_file (fresh_process (Some NotJSON) True) = Some NotJSON \<and>
   fails_to_parse (NotJSON :: relocation_record stored_file) \<and>
   history_writable (fresh_process (Some NotJSON) True) \<and>
   fst (load_relocation_history ''t1'' (fresh_process (Some NotJSON) True))
     = Inr (saved_empty_history ''t1'') \<and>
   history_file (snd (load_relocation_history ''t1'' (fresh_process (Some NotJSON) True)))
     = Some (serialise [] (rh_metadata (saved_empty_history ''t1''))) \<and>
   archive_file (fresh_archive_process (Some (JSONDocument (Present [(Some 1, None)]) Absent)) True)
     = Some (JSONDocument (Present [(Some 1, None)]) Absent) \<and>
   fails_to_parse (JSONDocument (Present [(Some 1, None)]) Absent :: archived_item stored_file) \<and>
   archive_writable (fresh_archive_process (Some (JSONDocument (Present [(Some 1, None)]) Absent)) True) \<and>
   fst (load_product_archive ''t1''
          (fresh_archive_process (Some (JSONDocument (Present [(Some 1, None)]) Absent)) True))
     = Inr (saved_empty_archive ''t1'') \<and>
   archive_file (snd (load_product_archive ''t1''
          (fresh_archive_process (Some (JSONDocument (Present [(Some 1, None)]) Absent)) True)))
     = Some (serialise [] (pa_metadata (saved_empty_archive ''t1''))) \<and>
   fst (load_relocation_history ''t1'' (fresh_process (Some NotJSON) False)) = Inl OSError \<and>
   fst (load_product_archive ''t1'' (fresh_archive_process (Some NotJSON) False)) = Inl OSError"
proof -
  have u: "fst (load_relocation_history ''t1'' (fresh_process (Some NotJSON) False)) = Inl OSError"
    by (simp add: load_relocation_history_def try_load_relocation_history_def
        init_relocation_history_def save_relocation_history_def fresh_process_def Let_def)
  have u': "fst (load_product_archive ''t1'' (fresh_archive_process (Some NotJSON) False)) = Inl OSError"
    by (simp add: load_product_archive_def try_load_product_archive_def
        init_product_archive_def save_product_archive_def fresh_archive_process_def Let_def)
  have a: "history_file (fresh_process (Some NotJSON) True) = Some NotJSON"
    "history_writable (fresh_process (Some NotJSON) True)"
    by (simp_all add: fresh_process_def)
  have b: "fails_to_parse (NotJSON :: relocation_record stored_file)"
    by (simp add: fails_to_parse_def)
  have c: "archive_file (fresh_archive_process (Some (JSONDocument (Present [(Some 1, None)]) Absent)) True)
     = Some (JSONDocument (Present [(Some 1, None)]) Absent)"
    "archive_writable (fresh_archive_process (Some (JSONDocument (Present [(Some 1, None)]) Absent)) True)"
    by (simp_all add: fresh_archive_process_def)
  have d: "fails_to_parse (JSONDocument (Present [(Some 1, None)]) Absent :: archived_item stored_file)"
    by (simp add: fails_to_parse_def)
  from load_falls_back_on_corrupt_file
    [of "fresh_process (Some NotJSON) True" "''t1''"
      "fresh_archive_process (Some (JSONDocument (Present [(Some 1, None)]) Absent)) True"]
    a b c d u u'
  show ?thesis by blast
qed










end
